theory Spec2Isabelle
  imports Main
begin

section \<open>Python values\<close>

text \<open>
  The values the client handles: decoded JSON documents, response texts, request
  parameters. \<open>PNone\<close> is Python's \<open>None\<close> (also what a function returns when it ends
  without a \<open>return\<close>, and what JSON \<open>null\<close> decodes to). A dictionary is an association
  list in insertion order; its keys are strings, as the keys of a JSON object are.
  JSON numbers with a fraction are not represented.
\<close>

datatype pyobj =
    PNone
  | PBool bool
  | PInt int
  | PStr string
  | PList "pyobj list"
  | PDict "(string \<times> pyobj) list"


text \<open>\<open>d[k] = v\<close> on a dictionary: an existing key keeps its place, a new one is appended.\<close>

fun dict_set :: "(string \<times> 'v) list \<Rightarrow> string \<Rightarrow> 'v \<Rightarrow> (string \<times> 'v) list" where
  "dict_set [] k v = [(k, v)]"
| "dict_set ((k', v') # d) k v =
     (if k' = k then (k', v) # d else (k', v') # dict_set d k v)"

text \<open>\<open>d.update(other)\<close>: every item of \<open>other\<close> is stored into \<open>d\<close>, in order.\<close>

fun dict_update :: "(string \<times> 'v) list \<Rightarrow> (string \<times> 'v) list \<Rightarrow> (string \<times> 'v) list" where
  "dict_update d [] = d"
| "dict_update d ((k, v) # other) = dict_update (dict_set d k v) other"

text \<open>\<open>sub in s\<close> on strings.\<close>

fun starts_with :: "string \<Rightarrow> string \<Rightarrow> bool" where
  "starts_with [] s = True"
| "starts_with (p # ps) [] = False"
| "starts_with (p # ps) (c # cs) = (p = c \<and> starts_with ps cs)"

fun py_in :: "string \<Rightarrow> string \<Rightarrow> bool" where
  "py_in sub [] = (sub = [])"
| "py_in sub (c # cs) = (starts_with sub (c # cs) \<or> py_in sub cs)"


text \<open>\<open>range(n)\<close>: empty when \<open>n\<close> is zero or negative.\<close>

definition py_range :: "int \<Rightarrow> int list" where
  "py_range n = map int [0..<nat n]"


section \<open>The HTTP collaborator\<close>

text \<open>
  The HTTP library is outside the client. A response is modelled by what the client
  reads from it: the status code, the final URL, the body text, what \<open>json()\<close> gives
  (\<open>None\<close> when it raises \<open>JSONDecodeError\<close>), what
  \<open>int(response.headers.get("Content-Length"))\<close> gives, and \<open>raw.tell()\<close>.
\<close>

datatype declared_length =
    NoHeader          \<comment> \<open>the header is absent: \<open>int(None)\<close> raises \<open>TypeError\<close>\<close>
  | NotAnInteger      \<comment> \<open>the header is not an integer literal: \<open>int\<close> raises \<open>ValueError\<close>\<close>
  | Declared int

record response =
  status_code :: int
  final_url :: string
  body_text :: string
  json_body :: "pyobj option"
  content_length :: declared_length
  raw_tell :: int

text \<open>\<open>raise_for_status()\<close> of the HTTP library raises \<open>HTTPError\<close> on a 4xx or 5xx status.\<close>

definition raises_for_status :: "response \<Rightarrow> bool" where
  "raises_for_status r = (400 \<le> status_code r \<and> status_code r < 600)"

record http_request =
  rq_method :: string
  rq_url :: string
  rq_params :: "(string \<times> pyobj) list option"
  rq_headers :: "(string \<times> string) list"

section \<open>Errors\<close>

text \<open>
  Modelled from the spec: the error kinds of the module \<open>exceptions\<close>, which is not
  among the sources. Every kind derives from \<open>ClientError\<close>, and none of them from one
  of the kinds the dispatcher tells apart by class. An error carries its message (what
  \<open>str(e)\<close> gives) and, where the raising code attaches one, the response (an HTTP
  response, a decoded body, or the fields of a decoded body).
\<close>

datatype client_kind =
    ClientError
  | ClientConnectionError
  | ClientNotFoundError
  | ClientJSONDecodeError
  | ClientForbiddenError
  | ClientBadRequestError
  | ClientGraphqlError
  | ClientThrottledError
  | ClientIncompleteReadError
  | ClientLoginRequired
  | GenericRequestError

datatype attached =
    NoResponse
  | HttpResponse response
  | Body pyobj
  | Fields "(string \<times> pyobj) list"

text \<open>
  Everything a call can raise: a typed error (\<open>Client\<close>), or one of Python's own
  exceptions, or an exception of the HTTP library that the client does not translate
  (\<open>Transport\<close>, with its class name).
\<close>

datatype exc =
    Client client_kind string attached
  | AssertionError string
  | KeyError string
  | TypeError
  | ValueError
  | AttributeError
  | Transport string

text \<open>What the HTTP library does with one request.\<close>

datatype net_outcome =
    Response response
  | ConnectionFailure string string
      \<comment> \<open>\<open>requests.ConnectionError\<close> or a subclass: class name and \<open>str(e)\<close>\<close>
  | OtherFailure string
      \<comment> \<open>any other exception of the library, by class name\<close>

text \<open>
  The environment of a client: the network, as the outcome of the \<open>n\<close>-th request the
  session issues, and the renderings Python and the libraries give (\<open>str(x)\<close> of a
  value, \<open>str(e)\<close> of the library's \<open>HTTPError\<close> and \<open>JSONDecodeError\<close>,
  \<open>json.dumps\<close> with compact separators). They are parameters of the model.
\<close>

record env =
  net :: "nat \<Rightarrow> http_request \<Rightarrow> net_outcome"
  py_str :: "pyobj \<Rightarrow> string"
  str_http_error :: "response \<Rightarrow> string"
  str_json_error :: "response \<Rightarrow> string"
  json_dumps :: "pyobj \<Rightarrow> string"

section \<open>The session\<close>

text \<open>
  The state of a client: the request counter, the headers and the delay of the
  session, and, to observe what a call does, the number of requests handed to the
  network so far and the log of the effects, in order. Durations are whole numbers of
  time units, of either sign, as the code receives them; a sleep that takes place is
  logged with the place that asked for it.
\<close>

datatype sleep_site = Throttle | Retry | Pagination

datatype event =
    Sleep sleep_site int
  | Issued http_request
  | JsonDecode

record session =
  requests_count :: int
  session_headers :: "(string \<times> string) list"
  request_timeout :: int
  issued :: nat
  log :: "event list"



definition default_headers :: "(string \<times> string) list" where
  "default_headers =
     [(''Connection'', ''Keep-Alive''),
      (''Accept'', ''*/*''),
      (''Accept-Encoding'', ''gzip,deflate''),
      (''Accept-Language'', ''en-US''),
      (''User-Agent'', ''Mozilla/5.0 (Macintosh; Intel Mac OS X 10_13_6) AppleWebKit/605.1.15 (KHTML, like Gecko) Version/11.1.2 Safari/605.1.15'')]"

text \<open>
  \<open>__init__\<close>: a fresh session whose headers are the fixed ones (they overwrite the
  library's own defaults), and the delay from the \<open>request_timeout\<close> keyword when it is
  given, from the class attribute (1) otherwise.
\<close>

definition init :: "int option \<Rightarrow> session" where
  "init request_timeout_kw =
     \<lparr>requests_count = 0,
      session_headers = default_headers,
      request_timeout = (case request_timeout_kw of None \<Rightarrow> 1 | Some t \<Rightarrow> t),
      issued = 0,
      log = []\<rparr>"

text \<open>
  \<open>time.sleep(t)\<close>: a negative duration raises \<open>ValueError\<close> and nothing is slept;
  otherwise the sleep takes place.
\<close>

definition time_sleep :: "sleep_site \<Rightarrow> int \<Rightarrow> session \<Rightarrow> (exc + unit) \<times> session" where
  "time_sleep site t s =
     (if t < 0 then (Inl ValueError, s)
      else (Inr (), s\<lparr>log := log s @ [Sleep site t]\<rparr>))"

text \<open>\<open>self.public.get(url, params=params)\<close>: the request goes out with the session's headers.\<close>

definition session_get ::
  "env \<Rightarrow> string \<Rightarrow> (string \<times> pyobj) list option \<Rightarrow> session \<Rightarrow> net_outcome \<times> session" where
  "session_get e u params s =
     (let rq = \<lparr>rq_method = ''GET'', rq_url = u, rq_params = params,
                rq_headers = session_headers s\<rparr>
      in (net e (issued s) rq, s\<lparr>issued := Suc (issued s), log := log s @ [Issued rq]\<rparr>))"

section \<open>One attempt: \<open>_send_public_request\<close>\<close>

text \<open>The keyword arguments \<open>public_request\<close> hands to every attempt.\<close>

record kwargs =
  kw_data :: "pyobj option"
  kw_params :: "(string \<times> pyobj) list option"
  kw_headers :: "(string \<times> string) list option"
  kw_return_json :: bool

text \<open>What the body of the \<open>try\<close> can raise, before the handlers translate it.\<close>

datatype raised =
    JSONDecodeError response
  | HTTPError response
  | ConnectionError string string
  | Uncaught exc

text \<open>
  The body of the \<open>try\<close>. With \<open>data\<close> the code calls \<open>self.public.data\<close>, an attribute
  the session of the HTTP library does not have (it offers \<open>get\<close> and \<open>post\<close>), so the
  lookup raises \<open>AttributeError\<close> before any request. The two log calls have no effect
  on the flow and are left out.
\<close>

definition try_send ::
  "env \<Rightarrow> string \<Rightarrow> pyobj option \<Rightarrow> (string \<times> pyobj) list option \<Rightarrow> bool \<Rightarrow> session
     \<Rightarrow> (raised + pyobj) \<times> session" where
  "try_send e u data params return_json s =
     (if data \<noteq> None then (Inl (Uncaught AttributeError), s)
      else
        (case session_get e u params s of
           (ConnectionFailure c m, s1) \<Rightarrow> (Inl (ConnectionError c m), s1)
         | (OtherFailure c, s1) \<Rightarrow> (Inl (Uncaught (Transport c)), s1)
         | (Response r, s1) \<Rightarrow>
             (case content_length r of
                NoHeader \<Rightarrow> (Inl (Uncaught TypeError), s1)
              | NotAnInteger \<Rightarrow> (Inl (Uncaught ValueError), s1)
              | Declared expected_length \<Rightarrow>
                  (let actual_length = raw_tell r in
                   if actual_length < expected_length then
                     (Inl (Uncaught (Client ClientIncompleteReadError
                        (''Incomplete read ('' @ py_str e (PInt actual_length)
                           @ '' bytes read, '' @ py_str e (PInt expected_length)
                           @ '' more expected)'')
                        (HttpResponse r))), s1)
                   else if raises_for_status r then (Inl (HTTPError r), s1)
                   else if return_json then
                     (case json_body r of
                        None \<Rightarrow> (Inl (JSONDecodeError r), s1\<lparr>log := log s1 @ [JsonDecode]\<rparr>)
                      | Some v \<Rightarrow> (Inr v, s1\<lparr>log := log s1 @ [JsonDecode]\<rparr>))
                   else (Inr (PStr (body_text r)), s1)))))"

text \<open>The \<open>except\<close> clauses, in the order of the source.\<close>

definition translate :: "env \<Rightarrow> string \<Rightarrow> raised \<Rightarrow> exc" where
  "translate e u x =
     (case x of
        JSONDecodeError r \<Rightarrow>
          (if py_in ''/login/'' (final_url r)
           then Client ClientLoginRequired (str_json_error e r) (HttpResponse r)
           else Client ClientJSONDecodeError
                  (''JSONDecodeError '' @ str_json_error e r @ '' while opening '' @ u)
                  (HttpResponse r))
      | HTTPError r \<Rightarrow>
          (if status_code r = 403 then Client ClientForbiddenError (str_http_error e r) (HttpResponse r)
           else if status_code r = 400 then Client ClientBadRequestError (str_http_error e r) (HttpResponse r)
           else if status_code r = 429 then Client ClientThrottledError (str_http_error e r) (HttpResponse r)
           else if status_code r = 404 then Client ClientNotFoundError (str_http_error e r) (HttpResponse r)
           else Client ClientError (str_http_error e r) (HttpResponse r))
      | ConnectionError c m \<Rightarrow> Client ClientConnectionError (c @ '' '' @ m) NoResponse
      | Uncaught x' \<Rightarrow> x')"

text \<open>
  What an attempt does before the \<open>try\<close>: the counter, the headers of the call merged into
  the session's (when the argument is given and not empty), the delay (when it is not
  zero). The delay is outside the \<open>try\<close>: what it raises leaves the attempt as it is.
\<close>

definition prepare :: "kwargs \<Rightarrow> session \<Rightarrow> (exc + unit) \<times> session" where
  "prepare kw s =
     (let s1 = s\<lparr>requests_count := requests_count s + 1\<rparr>;
          s2 = (case kw_headers kw of
                  None \<Rightarrow> s1
                | Some h \<Rightarrow>
                    if h \<noteq> [] then s1\<lparr>session_headers := dict_update (session_headers s1) h\<rparr>
                    else s1)
      in if request_timeout s2 \<noteq> 0 then time_sleep Throttle (request_timeout s2) s2
         else (Inr (), s2))"

definition send_public_request ::
  "env \<Rightarrow> string \<Rightarrow> kwargs \<Rightarrow> session \<Rightarrow> (exc + pyobj) \<times> session" where
  "send_public_request e u kw s =
     (case prepare kw s of
        (Inl x, s0) \<Rightarrow> (Inl x, s0)
      | (Inr ok, s0) \<Rightarrow>
          (case try_send e u (kw_data kw) (kw_params kw) (kw_return_json kw) s0 of
             (Inr v, s1) \<Rightarrow> (Inr v, s1)
           | (Inl x, s1) \<Rightarrow> (Inl (translate e u x), s1)))"

section \<open>The retrying dispatcher: \<open>public_request\<close>\<close>

text \<open>The kinds of the first \<open>except\<close> clause: they stop the retries.\<close>

definition stops_retries :: "client_kind \<Rightarrow> bool" where
  "stops_retries k =
     (k = ClientLoginRequired \<or> k = ClientNotFoundError \<or> k = ClientBadRequestError)"

text \<open>The test on a connection error's message that tells a broken SOCKS proxy.\<close>

definition socks_failure :: "client_kind \<Rightarrow> string \<Rightarrow> bool" where
  "socks_failure k msg =
     (k = ClientConnectionError
      \<and> py_in ''SOCKSHTTPSConnectionPool'' msg
      \<and> py_in ''Max retries exceeded with url'' msg
      \<and> py_in ''Failed to establish a new connection'' msg)"

text \<open>
  The \<open>for\<close> loop over the iterations that remain. Every typed kind is a \<open>ClientError\<close>
  and is caught by the second clause; any other exception leaves the loop as it is, and
  so does what the sleep in the handler raises. The loop that ends without returning
  gives \<open>None\<close>.
\<close>

fun retry_loop ::
  "env \<Rightarrow> string \<Rightarrow> kwargs \<Rightarrow> int \<Rightarrow> int \<Rightarrow> int list \<Rightarrow> session \<Rightarrow> (exc + pyobj) \<times> session" where
  "retry_loop e u kw retries_count retries_timeout [] s = (Inr PNone, s)"
| "retry_loop e u kw retries_count retries_timeout (iteration # rest) s =
     (case send_public_request e u kw s of
        (Inr v, s1) \<Rightarrow> (Inr v, s1)
      | (Inl (Client k msg a), s1) \<Rightarrow>
          (if stops_retries k then (Inl (Client k msg a), s1)
           else if socks_failure k msg then (Inl (Client k msg a), s1)
           else if retries_count > iteration + 1 then
             (case time_sleep Retry retries_timeout s1 of
                (Inl x, s2) \<Rightarrow> (Inl x, s2)
              | (Inr ok, s2) \<Rightarrow> retry_loop e u kw retries_count retries_timeout rest s2)
           else (Inl (Client k msg a), s1))
      | (Inl x, s1) \<Rightarrow> (Inl x, s1))"

definition public_request ::
  "env \<Rightarrow> string \<Rightarrow> kwargs \<Rightarrow> int \<Rightarrow> int \<Rightarrow> session \<Rightarrow> (exc + pyobj) \<times> session" where
  "public_request e u kw retries_count retries_timeout s =
     (if \<not> retries_count \<le> 10 then (Inl (AssertionError ''Retries count is too high''), s)
      else if \<not> retries_timeout \<le> 600 then
        (Inl (AssertionError ''Retries timeout is too high''), s)
      else retry_loop e u kw retries_count retries_timeout (py_range retries_count) s)"

section \<open>Subscripts and lookups\<close>







section \<open>The adapters\<close>





section \<open>Hashtags\<close>




section \<open>Observations\<close>

text \<open>
  What the log of a session tells: the sleeps that took place at one place, in order, the
  number of JSON decodings, and the requests handed to the network.
\<close>

fun sleep_at :: "sleep_site \<Rightarrow> event \<Rightarrow> int list" where
  "sleep_at site (Sleep site' t) = (if site' = site then [t] else [])"
| "sleep_at site ev = []"

definition sleeps_at :: "sleep_site \<Rightarrow> event list \<Rightarrow> int list" where
  "sleeps_at site evs = concat (map (sleep_at site) evs)"

definition json_decodes :: "event list \<Rightarrow> nat" where
  "json_decodes evs = length (filter (\<lambda>ev. ev = JsonDecode) evs)"

fun request_of :: "event \<Rightarrow> http_request list" where
  "request_of (Issued rq) = [rq]"
| "request_of ev = []"

definition issued_requests :: "event list \<Rightarrow> http_request list" where
  "issued_requests evs = concat (map request_of evs)"

text \<open>
  An error the dispatcher answers by another attempt: a typed error that is neither one of
  the three kinds that stop the retries nor a connection error with the SOCKS signature.
\<close>

definition retryable :: "exc \<Rightarrow> bool" where
  "retryable x =
     (case x of
        Client k msg a \<Rightarrow> \<not> stops_retries k \<and> \<not> socks_failure k msg
      | _ \<Rightarrow> False)"

text \<open>
  The session in which attempt \<open>n + 1\<close> of a call starts: each of the first \<open>n\<close> attempts
  has been made and has been followed by the sleep between attempts.
\<close>

fun after_failures :: "env \<Rightarrow> string \<Rightarrow> kwargs \<Rightarrow> int \<Rightarrow> nat \<Rightarrow> session \<Rightarrow> session" where
  "after_failures e u kw retries_timeout 0 s = s"
| "after_failures e u kw retries_timeout (Suc j) s =
     after_failures e u kw retries_timeout j
       (snd (time_sleep Retry retries_timeout (snd (send_public_request e u kw s))))"

section \<open>Scenarios\<close>

text \<open>
  Concrete environments: a network that answers the \<open>n\<close>-th request by a given outcome
  whatever the request, with fixed renderings; a network that plays a list of outcomes
  and then times out.
\<close>

definition network :: "(nat \<Rightarrow> net_outcome) \<Rightarrow> env" where
  "network f =
     \<lparr>net = (\<lambda>n rq. f n),
      py_str = (\<lambda>x. ''<object>''),
      str_http_error = (\<lambda>r. ''<HTTPError>''),
      str_json_error = (\<lambda>r. ''<JSONDecodeError>''),
      json_dumps = (\<lambda>x. ''<json>'')\<rparr>"

definition scripted :: "net_outcome list \<Rightarrow> env" where
  "scripted outcomes =
     network (\<lambda>n. if n < length outcomes then outcomes ! n else OtherFailure ''ReadTimeout'')"

definition answer :: "int \<Rightarrow> pyobj option \<Rightarrow> net_outcome" where
  "answer status body =
     Response \<lparr>status_code = status, final_url = ''https://www.instagram.com/'',
       body_text = ''body'', json_body = body, content_length = Declared 4, raw_tell = 4\<rparr>"

definition truncated :: response where
  "truncated =
     \<lparr>status_code = 200, final_url = ''https://www.instagram.com/'',
      body_text = ''{}'', json_body = Some (PDict []), content_length = Declared 100,
      raw_tell = 40\<rparr>"

definition get_kw :: "bool \<Rightarrow> kwargs" where
  "get_kw return_json =
     \<lparr>kw_data = None, kw_params = None, kw_headers = None, kw_return_json = return_json\<rparr>"

definition socks_message :: string where
  "socks_message = ''SOCKSHTTPSConnectionPool(host=x, port=443): Max retries exceeded with url: / (Caused by NewConnectionError(: Failed to establish a new connection))''"



section \<open>Kinds of failures and of answers\<close>




section \<open>Pages of a hashtag feed\<close>









section \<open>One attempt\<close>

lemma sleeps_at_simps [simp]:
  "sleeps_at site [] = []"
  "sleeps_at site (ev # evs) = sleep_at site ev @ sleeps_at site evs"
  "sleeps_at site (xs @ ys) = sleeps_at site xs @ sleeps_at site ys"
  by (simp_all add: sleeps_at_def)

lemma json_decodes_simps [simp]:
  "json_decodes [] = 0"
  "json_decodes (ev # evs) = (if ev = JsonDecode then 1 else 0) + json_decodes evs"
  "json_decodes (xs @ ys) = json_decodes xs + json_decodes ys"
  by (simp_all add: json_decodes_def)

lemma issued_requests_simps [simp]:
  "issued_requests [] = []"
  "issued_requests (ev # evs) = request_of ev @ issued_requests evs"
  "issued_requests (xs @ ys) = issued_requests xs @ issued_requests ys"
  by (simp_all add: issued_requests_def)

lemma time_sleep_fields:
  "requests_count (snd (time_sleep site t s)) = requests_count s"
  "session_headers (snd (time_sleep site t s)) = session_headers s"
  "request_timeout (snd (time_sleep site t s)) = request_timeout s"
  "issued (snd (time_sleep site t s)) = issued s"
  "log (snd (time_sleep site t s)) = log s @ (if t < 0 then [] else [Sleep site t])"
  "fst (time_sleep site t s) = (if t < 0 then Inl ValueError else Inr ())"
  by (simp_all add: time_sleep_def)

lemma prepare_fields:
  "requests_count (snd (prepare kw s)) = requests_count s + 1"
  "issued (snd (prepare kw s)) = issued s"
  "request_timeout (snd (prepare kw s)) = request_timeout s"
  "session_headers (snd (prepare kw s)) =
     (case kw_headers kw of None \<Rightarrow> session_headers s
      | Some h \<Rightarrow> dict_update (session_headers s) h)"
  "log (snd (prepare kw s)) =
     log s @ (if 0 < request_timeout s then [Sleep Throttle (request_timeout s)] else [])"
  "fst (prepare kw s) = (if request_timeout s < 0 then Inl ValueError else Inr ())"
  by (cases "kw_headers kw"; simp add: prepare_def Let_def time_sleep_def)+

lemma try_send_cases:
  "try_send e u d p rj s = (res, s1) \<Longrightarrow>
     requests_count s1 = requests_count s
     \<and> session_headers s1 = session_headers s
     \<and> request_timeout s1 = request_timeout s
     \<and> (\<exists>evs. log s1 = log s @ evs \<and> sleeps_at site evs = [])"
  by (auto simp: try_send_def session_get_def Let_def
      split: if_splits net_outcome.splits declared_length.splits option.splits)

lemma send_unfold:
  "send_public_request e u kw s =
     (if request_timeout s < 0 then (Inl ValueError, snd (prepare kw s))
      else (case try_send e u (kw_data kw) (kw_params kw) (kw_return_json kw)
                   (snd (prepare kw s)) of
              (Inr v, s1) \<Rightarrow> (Inr v, s1)
            | (Inl x, s1) \<Rightarrow> (Inl (translate e u x), s1)))"
proof -
  obtain p s0 where p: "prepare kw s = (p, s0)" by (cases "prepare kw s")
  with prepare_fields(6)[of kw s]
  have "p = (if request_timeout s < 0 then Inl ValueError else Inr ())" by simp
  with p show ?thesis
    by (simp add: send_public_request_def)
qed

lemma send_cases:
  assumes "send_public_request e u kw s = (res, s1)"
  shows "requests_count s1 = requests_count s + 1"
    and "request_timeout s1 = request_timeout s"
    and "site \<noteq> Throttle \<Longrightarrow> sleeps_at site (log s1) = sleeps_at site (log s)"
    and "\<exists>evs. log s1 = log s @ evs"
proof -
  have all: "requests_count s1 = requests_count s + 1
     \<and> request_timeout s1 = request_timeout s
     \<and> (site \<noteq> Throttle \<longrightarrow> sleeps_at site (log s1) = sleeps_at site (log s))
     \<and> (\<exists>evs. log s1 = log s @ evs)"
  proof (cases "request_timeout s < 0")
    case True
    with assms have "s1 = snd (prepare kw s)" by (simp add: send_unfold)
    then show ?thesis using True by (simp add: prepare_fields)
  next
    case False
    then obtain r0 where t: "try_send e u (kw_data kw) (kw_params kw) (kw_return_json kw)
                               (snd (prepare kw s)) = (r0, s1)"
      using assms by (auto simp: send_unfold split: prod.splits sum.splits)
    from try_send_cases[OF t, of site] show ?thesis
      by (auto simp: prepare_fields)
  qed
  from all show "requests_count s1 = requests_count s + 1"
    and "request_timeout s1 = request_timeout s"
    and "site \<noteq> Throttle \<Longrightarrow> sleeps_at site (log s1) = sleeps_at site (log s)"
    and "\<exists>evs. log s1 = log s @ evs"
    by simp_all
qed

lemma send_requests_count:
  "requests_count (snd (send_public_request e u kw s)) = requests_count s + 1"
  using send_cases(1)[of e u kw s] by (cases "send_public_request e u kw s") simp

lemma send_sleeps:
  "site \<noteq> Throttle \<Longrightarrow>
     sleeps_at site (log (snd (send_public_request e u kw s))) = sleeps_at site (log s)"
  using send_cases(3)[of e u kw s] by (cases "send_public_request e u kw s") simp

section \<open>The loop of the dispatcher\<close>

lemma py_range_pos: "1 \<le> n \<Longrightarrow> py_range n = 0 # map int [1..<nat n]"
  by (simp add: py_range_def upt_conv_Cons)

lemma after_failures_requests_count:
  "requests_count (after_failures e u kw rt m s) = requests_count s + int m"
  by (induction m arbitrary: s) (simp_all add: send_requests_count time_sleep_fields)

lemma after_failures_retry_sleeps:
  "m = 0 \<or> 0 \<le> rt \<Longrightarrow>
     sleeps_at Retry (log (after_failures e u kw rt m s))
       = sleeps_at Retry (log s) @ replicate m rt"
proof (induction m arbitrary: s)
  case 0
  then show ?case by simp
next
  case (Suc m)
  then have rt: "0 \<le> rt" by simp
  then have "sleeps_at Retry (log (after_failures e u kw rt m
                 (snd (time_sleep Retry rt (snd (send_public_request e u kw s))))))
          = sleeps_at Retry (log (snd (time_sleep Retry rt (snd (send_public_request e u kw s)))))
              @ replicate m rt"
    by (intro Suc.IH) simp
  with rt show ?case
    by (simp add: time_sleep_fields send_sleeps replicate_app_Cons_same)
qed

lemma after_failures_end:
  "after_failures e u kw rt (Suc m) s
     = snd (time_sleep Retry rt (snd (send_public_request e u kw (after_failures e u kw rt m s))))"
  by (induction m arbitrary: s) simp_all

lemma retry_loop_retries:
  assumes "send_public_request e u kw s = (Inl x, s1)" and "retryable x"
    and "rc > i + 1" and "0 \<le> rt"
  shows "retry_loop e u kw rc rt (i # its) s
           = retry_loop e u kw rc rt its (snd (time_sleep Retry rt s1))"
proof -
  from assms(2) obtain k msg a where k: "x = Client k msg a" "\<not> stops_retries k"
      "\<not> socks_failure k msg"
    by (auto simp: retryable_def split: exc.splits)
  with assms(1,3,4) show ?thesis by (simp add: time_sleep_def)
qed

text \<open>
  With a negative \<open>retries_timeout\<close> a call never comes to a second attempt: the sleep
  after the first retryable failure raises.
\<close>

lemma negative_retries_timeout:
  assumes "2 \<le> rc" and "rc \<le> 10" and "rt < 0"
    and "fst (send_public_request e u kw s) = Inl x" and "retryable x"
  shows "public_request e u kw rc rt s = (Inl ValueError, snd (send_public_request e u kw s))"
proof -
  obtain s1 where s1: "send_public_request e u kw s = (Inl x, s1)"
    using assms(4) by (cases "send_public_request e u kw s") simp
  from assms(5) obtain k msg a where k: "x = Client k msg a" "\<not> stops_retries k"
      "\<not> socks_failure k msg"
    by (auto simp: retryable_def split: exc.splits)
  show ?thesis
    using assms(1,2,3) s1 k by (simp add: public_request_def py_range_pos time_sleep_def)
qed

lemma retry_loop_skip:
  assumes "\<forall>j<m. \<exists>x. fst (send_public_request e u kw (after_failures e u kw rt j s)) = Inl x
               \<and> retryable x"
    and "i + m < n" and "rc = int n" and "m = 0 \<or> 0 \<le> rt"
  shows "retry_loop e u kw rc rt (map int [i..<n]) s
           = retry_loop e u kw rc rt (map int [i + m..<n]) (after_failures e u kw rt m s)"
  using assms
proof (induction m arbitrary: i s)
  case 0
  then show ?case by simp
next
  case (Suc m)
  then have l: "[i..<n] = i # [Suc i..<n]" by (simp add: upt_conv_Cons)
  from Suc.prems(4) have rt: "0 \<le> rt" by simp
  from Suc.prems(1) obtain x where x: "fst (send_public_request e u kw s) = Inl x" "retryable x"
    by fastforce
  obtain s1 where s1: "send_public_request e u kw s = (Inl x, s1)"
    using x by (cases "send_public_request e u kw s") simp
  have more: "rc > int i + 1" using Suc.prems(2,3) by simp
  have step: "retry_loop e u kw rc rt (map int [i..<n]) s
                = retry_loop e u kw rc rt (map int [Suc i..<n]) (snd (time_sleep Retry rt s1))"
    using retry_loop_retries[OF s1 x(2) more rt] by (simp add: l)
  have "retry_loop e u kw rc rt (map int [Suc i..<n]) (snd (time_sleep Retry rt s1))
          = retry_loop e u kw rc rt (map int [Suc i + m..<n])
              (after_failures e u kw rt m (snd (time_sleep Retry rt s1)))"
  proof (rule Suc.IH)
    show "\<forall>j<m. \<exists>x. fst (send_public_request e u kw
                 (after_failures e u kw rt j (snd (time_sleep Retry rt s1)))) = Inl x \<and> retryable x"
    proof (intro allI impI)
      fix j assume "j < m"
      then have "Suc j < Suc m" by simp
      from Suc.prems(1)[rule_format, OF this] show "\<exists>x. fst (send_public_request e u kw
                 (after_failures e u kw rt j (snd (time_sleep Retry rt s1)))) = Inl x \<and> retryable x"
        using s1 by simp
    qed
    show "Suc i + m < n" using Suc.prems(2) by simp
    show "rc = int n" by fact
    show "m = 0 \<or> 0 \<le> rt" using rt by simp
  qed
  with step s1 show ?case by simp
qed

lemma retry_loop_step:
  assumes "send_public_request e u kw s = (r1, s1)"
  shows "retry_loop e u kw rc rt (i # its) s = (r1, s1)
       \<or> (rt < 0 \<and> retry_loop e u kw rc rt (i # its) s = (Inl ValueError, s1))
       \<or> (0 \<le> rt \<and> rc > i + 1 \<and> retry_loop e u kw rc rt (i # its) s
            = retry_loop e u kw rc rt its (s1\<lparr>log := log s1 @ [Sleep Retry rt]\<rparr>))"
  using assms by (auto simp: time_sleep_def split: sum.splits exc.splits if_splits)

lemma retry_loop_effects:
  "retry_loop e u kw rc rt its s = (res, s') \<Longrightarrow>
     requests_count s + (if its = [] then 0 else 1) \<le> requests_count s'
     \<and> (\<exists>evs. log s' = log s @ evs)
     \<and> sleeps_at Pagination (log s') = sleeps_at Pagination (log s)"
proof (induction its arbitrary: s)
  case Nil
  then show ?case by simp
next
  case (Cons i its)
  obtain r1 s1 where s1: "send_public_request e u kw s = (r1, s1)"
    by (cases "send_public_request e u kw s")
  note sc = send_cases(1)[OF s1] send_cases(4)[OF s1] send_cases(3)[OF s1, of Pagination]
  from retry_loop_step[OF s1, of rc rt i its]
  consider "retry_loop e u kw rc rt (i # its) s = (r1, s1)"
    | "retry_loop e u kw rc rt (i # its) s = (Inl ValueError, s1)"
    | "retry_loop e u kw rc rt (i # its) s
         = retry_loop e u kw rc rt its (s1\<lparr>log := log s1 @ [Sleep Retry rt]\<rparr>)"
    by blast
  then show ?case
  proof cases
    case 1
    with Cons.prems sc show ?thesis by auto
  next
    case 2
    with Cons.prems sc show ?thesis by auto
  next
    case 3
    with Cons.prems
    have "retry_loop e u kw rc rt its (s1\<lparr>log := log s1 @ [Sleep Retry rt]\<rparr>) = (res, s')"
      by simp
    from Cons.IH[OF this] sc show ?thesis
      by (auto split: if_splits)
  qed
qed

lemma public_request_at_attempt:
  assumes "1 \<le> k" and "int k \<le> rc" and "rc \<le> 10" and "rt \<le> 600" and "k = 1 \<or> 0 \<le> rt"
    and "\<forall>j<k - 1. \<exists>x. fst (send_public_request e u kw (after_failures e u kw rt j s)) = Inl x
                    \<and> retryable x"
  shows "public_request e u kw rc rt s
           = retry_loop e u kw rc rt (int (k - 1) # map int [k..<nat rc])
               (after_failures e u kw rt (k - 1) s)"
proof -
  have m: "k - 1 = 0 \<or> 0 \<le> rt" using assms(1,5) by auto
  have lt: "0 + (k - 1) < nat rc" using assms(1,2) by simp
  have rc: "rc = int (nat rc)" using assms(1,2) by simp
  have "retry_loop e u kw rc rt (map int [0..<nat rc]) s
          = retry_loop e u kw rc rt (map int [0 + (k - 1)..<nat rc])
              (after_failures e u kw rt (k - 1) s)"
    using retry_loop_skip[OF assms(6) lt rc m] .
  moreover have "[0 + (k - 1)..<nat rc] = (k - 1) # [k..<nat rc]"
    using assms(1,2) lt by (simp add: upt_conv_Cons)
  ultimately show ?thesis
    using assms(3,4) by (simp add: public_request_def py_range_def)
qed

lemmas evals =
  send_public_request_def prepare_def try_send_def session_get_def translate_def
  time_sleep_def init_def raises_for_status_def stops_retries_def socks_failure_def
  retryable_def network_def scripted_def answer_def get_kw_def truncated_def Let_def




section \<open>Where failures come from\<close>











section \<open>The sleeps between pages\<close>





section \<open>Retrying\<close>

text \<open>
  C1. For every \<open>k\<close> with \<open>1 \<le> k \<le> retries_count\<close>: when the attempts \<open>1..k-1\<close> each raise a
  retryable typed error and attempt \<open>k\<close> returns \<open>v\<close>, \<open>public_request\<close> returns \<open>v\<close>, has
  slept \<open>retries_timeout\<close> between attempts exactly \<open>k - 1\<close> times, and has made \<open>k\<close>
  attempts. The two assertions of the dispatcher hold, as they do whenever a first attempt
  is made, and \<open>retries_timeout\<close> is not negative unless \<open>k = 1\<close>: a negative one makes the
  sleep after the first failure raise \<open>ValueError\<close>, and no second attempt takes place.
\<close>

theorem retry_then_success:
  assumes "1 \<le> k" and "int k \<le> retries_count" and "retries_count \<le> 10"
    and "retries_timeout \<le> 600" and "k = 1 \<or> 0 \<le> retries_timeout"
    and "\<forall>j<k - 1. \<exists>x. fst (send_public_request e u kw
                             (after_failures e u kw retries_timeout j s)) = Inl x
                    \<and> retryable x"
    and "fst (send_public_request e u kw (after_failures e u kw retries_timeout (k - 1) s)) = Inr v"
  shows "fst (public_request e u kw retries_count retries_timeout s) = Inr v
       \<and> sleeps_at Retry (log (snd (public_request e u kw retries_count retries_timeout s)))
           = sleeps_at Retry (log s) @ replicate (k - 1) retries_timeout
       \<and> requests_count (snd (public_request e u kw retries_count retries_timeout s))
           = requests_count s + int k"
proof -
  let ?sk = "after_failures e u kw retries_timeout (k - 1) s"
  obtain s1 where s1: "send_public_request e u kw ?sk = (Inr v, s1)"
    using assms(7) by (cases "send_public_request e u kw ?sk") simp
  have eq: "public_request e u kw retries_count retries_timeout s
          = send_public_request e u kw ?sk"
    using public_request_at_attempt[OF assms(1-6)] s1 by simp
  have m: "k - 1 = 0 \<or> 0 \<le> retries_timeout" using assms(1,5) by auto
  show ?thesis
    using assms(1,7) after_failures_retry_sleeps[OF m, of e u kw s]
    by (simp add: eq send_sleeps send_requests_count after_failures_requests_count)
qed

theorem retry_then_success_witness:
  "fst (public_request (scripted [answer 500 None, answer 200 None]) ''u'' (get_kw False) 3 5
          (init None)) = Inr (PStr ''body'')
   \<and> sleeps_at Retry (log (snd (public_request (scripted [answer 500 None, answer 200 None])
          ''u'' (get_kw False) 3 5 (init None)))) = [5]
   \<and> requests_count (snd (public_request (scripted [answer 500 None, answer 200 None])
          ''u'' (get_kw False) 3 5 (init None))) = 2"
proof -
  let ?e = "scripted [answer 500 None, answer 200 None]"
  have p: "1 \<le> (2::nat)" "int 2 \<le> 3" "(3::int) \<le> 10" "(5::int) \<le> 600"
      "(2::nat) = 1 \<or> (0::int) \<le> 5"
    by simp_all
  have a: "\<forall>j<(2::nat) - 1. \<exists>x. fst (send_public_request ?e ''u'' (get_kw False)
               (after_failures ?e ''u'' (get_kw False) 5 j (init None))) = Inl x \<and> retryable x"
    by (simp add: evals)
  have b: "fst (send_public_request ?e ''u'' (get_kw False)
               (after_failures ?e ''u'' (get_kw False) 5 (2 - 1) (init None))) = Inr (PStr ''body'')"
    by (simp add: evals)
  show ?thesis
    using retry_then_success[OF p a b] by (simp add: init_def)
qed

text \<open>
  C2. For every \<open>retries_count \<ge> 1\<close>: when the first attempt raises \<open>ClientLoginRequired\<close>,
  \<open>ClientNotFoundError\<close> or \<open>ClientBadRequestError\<close>, \<open>public_request\<close> is that one attempt
  (the same error is raised, from the same state), the counter has grown by one, and no
  sleep between attempts was made.
\<close>

theorem stops_on_first:
  assumes "1 \<le> retries_count" and "retries_count \<le> 10" and "retries_timeout \<le> 600"
    and "fst (send_public_request e u kw s) = Inl (Client k msg a)"
    and "k = ClientLoginRequired \<or> k = ClientNotFoundError \<or> k = ClientBadRequestError"
  shows "public_request e u kw retries_count retries_timeout s = send_public_request e u kw s
       \<and> requests_count (snd (public_request e u kw retries_count retries_timeout s))
           = requests_count s + 1
       \<and> sleeps_at Retry (log (snd (public_request e u kw retries_count retries_timeout s)))
           = sleeps_at Retry (log s)"
proof -
  obtain s1 where s1: "send_public_request e u kw s = (Inl (Client k msg a), s1)"
    using assms(4) by (cases "send_public_request e u kw s") simp
  have "public_request e u kw retries_count retries_timeout s = send_public_request e u kw s"
    using assms(1,2,3,5) s1 by (auto simp: public_request_def py_range_pos stops_retries_def)
  then show ?thesis by (simp add: send_requests_count send_sleeps)
qed

theorem stops_on_first_witness:
  "public_request (scripted [answer 404 None]) ''u'' (get_kw True) 7 10 (init None)
     = send_public_request (scripted [answer 404 None]) ''u'' (get_kw True) (init None)
   \<and> requests_count (snd (public_request (scripted [answer 404 None]) ''u'' (get_kw True) 7 10
        (init None))) = requests_count (init None) + 1
   \<and> sleeps_at Retry (log (snd (public_request (scripted [answer 404 None]) ''u'' (get_kw True)
        7 10 (init None)))) = sleeps_at Retry (log (init None))"
proof -
  let ?e = "scripted [answer 404 None]"
  have a: "fst (send_public_request ?e ''u'' (get_kw True) (init None))
             = Inl (Client ClientNotFoundError ''<HTTPError>''
                 (HttpResponse \<lparr>status_code = 404, final_url = ''https://www.instagram.com/'',
                    body_text = ''body'', json_body = None, content_length = Declared 4,
                    raw_tell = 4\<rparr>))"
    by (simp add: evals)
  have p: "(1::int) \<le> 7" "(7::int) \<le> 10" "(10::int) \<le> 600" by simp_all
  have k: "ClientNotFoundError = ClientLoginRequired \<or> ClientNotFoundError = ClientNotFoundError
             \<or> ClientNotFoundError = ClientBadRequestError" by simp
  show ?thesis by (rule stops_on_first[OF p a k])
qed

text \<open>
  C3. At whichever attempt \<open>k\<close> of \<open>public_request\<close> a \<open>ClientConnectionError\<close> is raised
  (the attempts before it each raised a retryable error): with the SOCKS signature in its
  message the call ends with that attempt, raising the same error from the same state,
  and no sleep follows the \<open>k - 1\<close> earlier ones, however many attempts remain; without
  the signature the error is a retryable one, and with an attempt left (and a
  \<open>retries_timeout\<close> that is not negative) the call sleeps \<open>retries_timeout\<close> right after
  the attempt and goes on with the remaining iterations, so that it makes at least
  \<open>k + 1\<close> attempts.
\<close>

theorem socks_or_transient:
  assumes "1 \<le> k" and "int k \<le> retries_count" and "retries_count \<le> 10"
    and "retries_timeout \<le> 600" and "k = 1 \<or> 0 \<le> retries_timeout"
    and "\<forall>j<k - 1. \<exists>x. fst (send_public_request e u kw
                             (after_failures e u kw retries_timeout j s)) = Inl x
                    \<and> retryable x"
    and "fst (send_public_request e u kw (after_failures e u kw retries_timeout (k - 1) s))
           = Inl (Client ClientConnectionError msg a)"
  shows "(socks_failure ClientConnectionError msg \<longrightarrow>
            public_request e u kw retries_count retries_timeout s
              = send_public_request e u kw (after_failures e u kw retries_timeout (k - 1) s)
            \<and> sleeps_at Retry (log (snd (public_request e u kw retries_count retries_timeout s)))
                = sleeps_at Retry (log s) @ replicate (k - 1) retries_timeout)
       \<and> (\<not> socks_failure ClientConnectionError msg \<longrightarrow>
            retryable (Client ClientConnectionError msg a))
       \<and> (\<not> socks_failure ClientConnectionError msg \<and> int k < retries_count
            \<and> 0 \<le> retries_timeout \<longrightarrow>
            public_request e u kw retries_count retries_timeout s
              = retry_loop e u kw retries_count retries_timeout (map int [k..<nat retries_count])
                  (after_failures e u kw retries_timeout k s)
            \<and> requests_count s + int k + 1
                \<le> requests_count (snd (public_request e u kw retries_count retries_timeout s))
            \<and> (\<exists>evs. log (snd (public_request e u kw retries_count retries_timeout s))
                  = log (snd (send_public_request e u kw
                                (after_failures e u kw retries_timeout (k - 1) s)))
                      @ Sleep Retry retries_timeout # evs))"
proof -
  let ?sk = "after_failures e u kw retries_timeout (k - 1) s"
  let ?rest = "map int [k..<nat retries_count]"
  obtain s1 where s1: "send_public_request e u kw ?sk
                         = (Inl (Client ClientConnectionError msg a), s1)"
    using assms(7) by (cases "send_public_request e u kw ?sk") simp
  have p: "public_request e u kw retries_count retries_timeout s
             = retry_loop e u kw retries_count retries_timeout (int (k - 1) # ?rest) ?sk"
    by (rule public_request_at_attempt[OF assms(1-6)])
  have m: "k - 1 = 0 \<or> 0 \<le> retries_timeout" using assms(1,5) by auto
  have first: "socks_failure ClientConnectionError msg \<longrightarrow>
            public_request e u kw retries_count retries_timeout s
              = send_public_request e u kw ?sk
            \<and> sleeps_at Retry (log (snd (public_request e u kw retries_count retries_timeout s)))
                = sleeps_at Retry (log s) @ replicate (k - 1) retries_timeout"
  proof
    assume "socks_failure ClientConnectionError msg"
    then have "public_request e u kw retries_count retries_timeout s
                 = send_public_request e u kw ?sk"
      using p s1 by (simp add: stops_retries_def)
    then show "public_request e u kw retries_count retries_timeout s
              = send_public_request e u kw ?sk
            \<and> sleeps_at Retry (log (snd (public_request e u kw retries_count retries_timeout s)))
                = sleeps_at Retry (log s) @ replicate (k - 1) retries_timeout"
      using after_failures_retry_sleeps[OF m, of e u kw s] by (simp add: send_sleeps)
  qed
  have second: "\<not> socks_failure ClientConnectionError msg \<longrightarrow>
            retryable (Client ClientConnectionError msg a)"
    by (simp add: retryable_def stops_retries_def)
  have third: "\<not> socks_failure ClientConnectionError msg \<and> int k < retries_count
            \<and> 0 \<le> retries_timeout \<longrightarrow>
            public_request e u kw retries_count retries_timeout s
              = retry_loop e u kw retries_count retries_timeout ?rest
                  (after_failures e u kw retries_timeout k s)
            \<and> requests_count s + int k + 1
                \<le> requests_count (snd (public_request e u kw retries_count retries_timeout s))
            \<and> (\<exists>evs. log (snd (public_request e u kw retries_count retries_timeout s))
                  = log (snd (send_public_request e u kw ?sk)) @ Sleep Retry retries_timeout # evs)"
  proof
    assume h: "\<not> socks_failure ClientConnectionError msg \<and> int k < retries_count
                 \<and> 0 \<le> retries_timeout"
    have sk: "after_failures e u kw retries_timeout k s
                = snd (time_sleep Retry retries_timeout s1)"
      using after_failures_end[of e u kw retries_timeout "k - 1" s] assms(1) s1 by simp
    let ?s2 = "after_failures e u kw retries_timeout k s"
    have more: "retries_count > int (k - 1) + 1" using h assms(1) by simp
    have eq: "public_request e u kw retries_count retries_timeout s
                = retry_loop e u kw retries_count retries_timeout ?rest ?s2"
      using retry_loop_retries[OF s1 second[rule_format] more, of retries_timeout ?rest] h p sk
      by simp
    have "k < nat retries_count" using h by arith
    then have ne: "?rest \<noteq> []" by simp
    obtain res s' where r: "retry_loop e u kw retries_count retries_timeout ?rest ?s2 = (res, s')"
      by (cases "retry_loop e u kw retries_count retries_timeout ?rest ?s2")
    have c: "requests_count ?s2 = requests_count s + int k"
      by (rule after_failures_requests_count)
    have l: "log ?s2 = log s1 @ [Sleep Retry retries_timeout]"
      using h by (simp add: sk time_sleep_fields)
    from retry_loop_effects[OF r] ne c l
    have "requests_count s + int k + 1 \<le> requests_count s'"
      and "\<exists>evs. log s' = log s1 @ Sleep Retry retries_timeout # evs"
      by auto
    then show "public_request e u kw retries_count retries_timeout s
              = retry_loop e u kw retries_count retries_timeout ?rest ?s2
            \<and> requests_count s + int k + 1
                \<le> requests_count (snd (public_request e u kw retries_count retries_timeout s))
            \<and> (\<exists>evs. log (snd (public_request e u kw retries_count retries_timeout s))
                  = log (snd (send_public_request e u kw ?sk)) @ Sleep Retry retries_timeout # evs)"
      using eq r s1 by simp
  qed
  from first second third show ?thesis by blast
qed

theorem socks_or_transient_witness:
  "public_request (scripted [answer 500 None, ConnectionFailure ''ConnectionError'' socks_message])
        ''u'' (get_kw False) 10 10 (init None)
      = send_public_request
          (scripted [answer 500 None, ConnectionFailure ''ConnectionError'' socks_message]) ''u''
          (get_kw False)
          (after_failures
             (scripted [answer 500 None, ConnectionFailure ''ConnectionError'' socks_message])
             ''u'' (get_kw False) 10 (2 - 1) (init None))
   \<and> requests_count (init None) + int 1 + 1
       \<le> requests_count (snd (public_request
            (scripted [ConnectionFailure ''ConnectionError'' ''refused'', answer 200 None]) ''u''
            (get_kw False) 10 10 (init None)))"
proof -
  let ?e = "scripted [answer 500 None, ConnectionFailure ''ConnectionError'' socks_message]"
  let ?f = "scripted [ConnectionFailure ''ConnectionError'' ''refused'', answer 200 None]"
  have sig: "socks_failure ClientConnectionError (''ConnectionError '' @ socks_message)"
    by (simp add: socks_failure_def socks_message_def)
  have nosig: "\<not> socks_failure ClientConnectionError (''ConnectionError '' @ ''refused'')
                 \<and> int 1 < 10 \<and> (0::int) \<le> 10"
    by (simp add: socks_failure_def)
  have p2: "1 \<le> (2::nat)" "int 2 \<le> 10" "(10::int) \<le> 10" "(10::int) \<le> 600"
      "(2::nat) = 1 \<or> (0::int) \<le> 10"
    by simp_all
  have p1: "1 \<le> (1::nat)" "int 1 \<le> 10" "(10::int) \<le> 10" "(10::int) \<le> 600"
      "(1::nat) = 1 \<or> (0::int) \<le> 10"
    by simp_all
  have a0: "\<forall>j<(2::nat) - 1. \<exists>x. fst (send_public_request ?e ''u'' (get_kw False)
               (after_failures ?e ''u'' (get_kw False) 10 j (init None))) = Inl x \<and> retryable x"
    by (simp add: evals)
  have a: "fst (send_public_request ?e ''u'' (get_kw False)
               (after_failures ?e ''u'' (get_kw False) 10 (2 - 1) (init None)))
             = Inl (Client ClientConnectionError (''ConnectionError '' @ socks_message) NoResponse)"
    by (simp add: evals)
  have b0: "\<forall>j<(1::nat) - 1. \<exists>x. fst (send_public_request ?f ''u'' (get_kw False)
               (after_failures ?f ''u'' (get_kw False) 10 j (init None))) = Inl x \<and> retryable x"
    by simp
  have b: "fst (send_public_request ?f ''u'' (get_kw False)
               (after_failures ?f ''u'' (get_kw False) 10 (1 - 1) (init None)))
             = Inl (Client ClientConnectionError (''ConnectionError '' @ ''refused'') NoResponse)"
    by (simp add: evals)
  note one = socks_or_transient[OF p2 a0 a, THEN conjunct1, rule_format, OF sig, THEN conjunct1]
  note two = socks_or_transient[OF p1 b0 b, THEN conjunct2, THEN conjunct2, rule_format,
      OF nosig, THEN conjunct2, THEN conjunct1]
  show ?thesis by (rule conjI[OF one two])
qed

section \<open>The request counter\<close>

text \<open>
  C4. Every call of \<open>_send_public_request\<close> adds exactly one to \<open>requests_count\<close>, whatever
  the environment, the arguments and the outcome of the attempt.
\<close>

theorem counter_always:
  "requests_count (snd (send_public_request e u kw s)) = requests_count s + 1"
  by (rule send_requests_count)

section \<open>Incomplete reads\<close>

text \<open>
  C5. When the response to the GET of an attempt declares a \<open>Content-Length\<close> greater than
  the bytes read, \<open>_send_public_request\<close> raises \<open>ClientIncompleteReadError\<close> with that
  response attached, and the JSON decoder is not called, whatever \<open>return_json\<close> is. That
  there is a response to a GET says that \<open>data\<close> is \<open>None\<close> and that the delay before the
  request did not raise.
\<close>

theorem incomplete_read:
  assumes "kw_data kw = None" and "0 \<le> request_timeout s"
    and "fst (session_get e u (kw_params kw) (snd (prepare kw s))) = Response r"
    and "content_length r = Declared n" and "raw_tell r < n"
  shows "send_public_request e u kw s
           = (Inl (Client ClientIncompleteReadError
                (''Incomplete read ('' @ py_str e (PInt (raw_tell r)) @ '' bytes read, ''
                   @ py_str e (PInt n) @ '' more expected)'')
                (HttpResponse r)),
              snd (session_get e u (kw_params kw) (snd (prepare kw s))))
       \<and> json_decodes (log (snd (send_public_request e u kw s))) = json_decodes (log s)"
proof -
  let ?s0 = "snd (prepare kw s)"
  obtain s1 where g: "session_get e u (kw_params kw) ?s0 = (Response r, s1)"
    using assms(3) by (cases "session_get e u (kw_params kw) ?s0") simp
  have t: "try_send e u (kw_data kw) (kw_params kw) (kw_return_json kw) ?s0
             = (Inl (Uncaught (Client ClientIncompleteReadError
                  (''Incomplete read ('' @ py_str e (PInt (raw_tell r)) @ '' bytes read, ''
                     @ py_str e (PInt n) @ '' more expected)'')
                  (HttpResponse r))), s1)"
    using assms(1,4,5) g by (simp add: try_send_def Let_def)
  have l: "json_decodes (log s1) = json_decodes (log s)"
    using g by (auto simp: session_get_def Let_def prepare_fields)
  show ?thesis using t g l assms(2) by (simp add: send_unfold translate_def)
qed

theorem incomplete_read_witness:
  "send_public_request (scripted [Response truncated]) ''u'' (get_kw True) (init None)
     = (Inl (Client ClientIncompleteReadError
          (''Incomplete read ('' @ py_str (scripted [Response truncated]) (PInt (raw_tell truncated))
             @ '' bytes read, '' @ py_str (scripted [Response truncated]) (PInt 100)
             @ '' more expected)'')
          (HttpResponse truncated)),
        snd (session_get (scripted [Response truncated]) ''u'' (kw_params (get_kw True))
               (snd (prepare (get_kw True) (init None)))))
   \<and> json_decodes (log (snd (send_public_request (scripted [Response truncated]) ''u''
        (get_kw True) (init None)))) = json_decodes (log (init None))"
proof -
  let ?e = "scripted [Response truncated]"
  have a: "kw_data (get_kw True) = None" by (simp add: get_kw_def)
  have z: "0 \<le> request_timeout (init None)" by (simp add: init_def)
  have b: "fst (session_get ?e ''u'' (kw_params (get_kw True))
                  (snd (prepare (get_kw True) (init None))))
             = Response truncated"
    by (simp add: session_get_def prepare_def init_def scripted_def network_def get_kw_def
        time_sleep_def Let_def)
  have c: "content_length truncated = Declared 100" by (simp add: truncated_def)
  have d: "raw_tell truncated < 100" by (simp add: truncated_def)
  show ?thesis by (rule incomplete_read[OF a z b c d])
qed

section \<open>No attempt at all\<close>

text \<open>
  With \<open>retries_count = 0\<close> and a \<open>retries_timeout\<close> above 600 the second assertion fails
  before the loop is reached: an error is raised although no attempt is made.
\<close>

theorem no_retries_assertion:
  "public_request (scripted []) ''u'' (get_kw False) 0 601 (init None)
     = (Inl (AssertionError ''Retries timeout is too high''), init None)"
  by (simp add: public_request_def)

text \<open>
  C10, amended. With \<open>retries_count = 0\<close> and \<open>retries_timeout \<le> 600\<close> (both assertions
  hold), \<open>public_request\<close> returns \<open>None\<close> and leaves the session as it was: no attempt is
  made, nothing is slept, nothing is raised.
\<close>

theorem no_retries_gives_none:
  "retries_timeout \<le> 600 \<Longrightarrow> public_request e u kw 0 retries_timeout s = (Inr PNone, s)"
  by (simp add: public_request_def py_range_def)

theorem no_retries_gives_none_witness:
  "(10::int) \<le> 600
   \<and> public_request (scripted []) ''u'' (get_kw False) 0 10 (init None) = (Inr PNone, init None)"
  using no_retries_gives_none[of 10 "scripted []" "''u''" "get_kw False" "init None"] by simp

section \<open>Headers\<close>




section \<open>The identifiers of a GraphQL query\<close>




section \<open>The hashtag feed\<close>



section \<open>What a call can raise\<close>





end
